theory Spec2Isabelle
  imports Complex_Main
begin

section \<open>ComparePlayer: the split-screen video comparison widget\<close>

text \<open>
  This theory embeds the final revision of \<^verbatim>\<open>ComparePlayer.jsx\<close> (the third
  document of \<^verbatim>\<open>src/unnamed/part_000\<close>, lines 341--656): a React component
  that owns two video elements, a divider position, and the handlers that drag the
  divider, toggle playback and toggle the audio gate.

  Conventions of the embedding.
  \<^item> JavaScript numbers are the values NaN, +Infinity, -Infinity and the finite
    numbers; a finite number is a \<^typ>\<open>real\<close>. Rounding to the nearest double
    and the sign of zero are not modelled: arithmetic on finite numbers is exact.
  \<^item> The component state (the four \<^verbatim>\<open>useState\<close> cells), the three refs
    and the fields of the two video elements the component reads or writes form
    one record, passed explicitly.
  \<^item> A handler is a function from the committed state to the next state. React
    re-renders between two discrete events, so every handler reads the state the
    preceding one left; \<open>commit\<close> runs the effects whose dependencies changed.
    Where two calls can reach the same render's closure, as on the imperative
    handle, the render whose value the closure holds is an argument of its own.
\<close>

subsection \<open>JavaScript numbers and the built-ins the component calls\<close>

datatype jsnum = NaN | PInf | NInf | Fin real

fun isNaN_js :: "jsnum \<Rightarrow> bool" where
  "isNaN_js NaN = True"
| "isNaN_js _ = False"

text \<open>Binary \<^verbatim>\<open>-\<close> on numbers.\<close>

fun js_sub :: "jsnum \<Rightarrow> jsnum \<Rightarrow> jsnum" where
  "js_sub NaN _ = NaN"
| "js_sub _ NaN = NaN"
| "js_sub (Fin x) (Fin y) = Fin (x - y)"
| "js_sub (Fin x) PInf = NInf"
| "js_sub (Fin x) NInf = PInf"
| "js_sub PInf PInf = NaN"
| "js_sub PInf _ = PInf"
| "js_sub NInf NInf = NaN"
| "js_sub NInf _ = NInf"

text \<open>Binary \<^verbatim>\<open>+\<close> on numbers.\<close>

fun js_add :: "jsnum \<Rightarrow> jsnum \<Rightarrow> jsnum" where
  "js_add NaN _ = NaN"
| "js_add _ NaN = NaN"
| "js_add (Fin x) (Fin y) = Fin (x + y)"
| "js_add (Fin x) PInf = PInf"
| "js_add (Fin x) NInf = NInf"
| "js_add PInf NInf = NaN"
| "js_add PInf _ = PInf"
| "js_add NInf PInf = NaN"
| "js_add NInf _ = NInf"

text \<open>
  The sign an infinite result takes from a finite operand; zero counts as positive
  (the model has one zero).
\<close>

definition signed_inf :: "bool \<Rightarrow> jsnum" where
  "signed_inf negative = (if negative then NInf else PInf)"

text \<open>Binary \<^verbatim>\<open>*\<close> on numbers: infinity times zero is NaN.\<close>

fun js_mul :: "jsnum \<Rightarrow> jsnum \<Rightarrow> jsnum" where
  "js_mul NaN _ = NaN"
| "js_mul _ NaN = NaN"
| "js_mul (Fin x) (Fin y) = Fin (x * y)"
| "js_mul (Fin x) PInf = (if x = 0 then NaN else signed_inf (x < 0))"
| "js_mul (Fin x) NInf = (if x = 0 then NaN else signed_inf (0 < x))"
| "js_mul PInf (Fin y) = (if y = 0 then NaN else signed_inf (y < 0))"
| "js_mul NInf (Fin y) = (if y = 0 then NaN else signed_inf (0 < y))"
| "js_mul PInf PInf = PInf"
| "js_mul PInf NInf = NInf"
| "js_mul NInf PInf = NInf"
| "js_mul NInf NInf = PInf"

text \<open>
  Binary \<^verbatim>\<open>/\<close> on numbers: a nonzero number over zero is an infinity, zero
  over zero is NaN, a finite number over an infinity is zero.
\<close>

fun js_div :: "jsnum \<Rightarrow> jsnum \<Rightarrow> jsnum" where
  "js_div NaN _ = NaN"
| "js_div _ NaN = NaN"
| "js_div (Fin x) (Fin y) =
     (if y = 0 then (if x = 0 then NaN else signed_inf (x < 0)) else Fin (x / y))"
| "js_div (Fin x) PInf = Fin 0"
| "js_div (Fin x) NInf = Fin 0"
| "js_div PInf (Fin y) = signed_inf (y < 0)"
| "js_div NInf (Fin y) = signed_inf (0 \<le> y)"
| "js_div PInf _ = NaN"
| "js_div NInf _ = NaN"

text \<open>The relational \<^verbatim>\<open>>\<close>: false as soon as one operand is NaN.\<close>

fun js_gt :: "jsnum \<Rightarrow> jsnum \<Rightarrow> bool" where
  "js_gt NaN _ = False"
| "js_gt _ NaN = False"
| "js_gt (Fin x) (Fin y) = (y < x)"
| "js_gt PInf PInf = False"
| "js_gt PInf _ = True"
| "js_gt NInf _ = False"
| "js_gt (Fin x) PInf = False"
| "js_gt (Fin x) NInf = True"

fun Math_abs :: "jsnum \<Rightarrow> jsnum" where
  "Math_abs NaN = NaN"
| "Math_abs PInf = PInf"
| "Math_abs NInf = PInf"
| "Math_abs (Fin x) = Fin \<bar>x\<bar>"

text \<open>\<^verbatim>\<open>Math.max\<close> and \<^verbatim>\<open>Math.min\<close> of two numbers: NaN if either is NaN.\<close>

fun Math_max :: "jsnum \<Rightarrow> jsnum \<Rightarrow> jsnum" where
  "Math_max NaN _ = NaN"
| "Math_max _ NaN = NaN"
| "Math_max a b = (if js_gt b a then b else a)"

fun Math_min :: "jsnum \<Rightarrow> jsnum \<Rightarrow> jsnum" where
  "Math_min NaN _ = NaN"
| "Math_min _ NaN = NaN"
| "Math_min a b = (if js_gt a b then b else a)"


subsection \<open>\<^verbatim>\<open>Number(value)\<close>\<close>

text \<open>
  \<^verbatim>\<open>handleSliderChange\<close> converts \<^verbatim>\<open>e.target.value\<close> with
  \<^verbatim>\<open>Number\<close>. The primitive values a change event can carry are modelled,
  with the conversion the language defines on each: \<^verbatim>\<open>undefined\<close> is NaN,
  \<^verbatim>\<open>null\<close> and \<^verbatim>\<open>false\<close> are 0, \<^verbatim>\<open>true\<close> is 1, and a string
  is read by the numeric-string grammar (white space trimmed, the empty string is 0,
  an optional sign before \<^verbatim>\<open>Infinity\<close> or a decimal literal with optional
  fraction and exponent, unsigned hexadecimal, octal and binary integers, any other
  text NaN). Strings are byte strings, so only the ASCII white space is trimmed.
\<close>

datatype jsval = JUndefined | JNull | JBool bool | JNum jsnum | JStr string

definition is_space :: "char \<Rightarrow> bool" where
  "is_space c = (of_char c \<in> {9, 10, 11, 12, 13, 32 :: nat})"

definition trim :: "string \<Rightarrow> string" where
  "trim s = rev (dropWhile is_space (rev (dropWhile is_space s)))"

definition digit_val :: "char \<Rightarrow> nat" where
  "digit_val c =
     (let n = of_char c in
      if 48 \<le> n \<and> n \<le> 57 then n - 48
      else if 97 \<le> n \<and> n \<le> 102 then n - 87
      else if 65 \<le> n \<and> n \<le> 70 then n - 55
      else 36)"

definition is_digit :: "nat \<Rightarrow> char \<Rightarrow> bool" where
  "is_digit radix c = (digit_val c < radix)"

definition digits_val :: "nat \<Rightarrow> string \<Rightarrow> nat" where
  "digits_val radix ds = foldl (\<lambda>a c. radix * a + digit_val c) 0 ds"

definition radix_literal :: "nat \<Rightarrow> string \<Rightarrow> jsnum" where
  "radix_literal radix ds =
     (if ds \<noteq> [] \<and> list_all (is_digit radix) ds then Fin (real (digits_val radix ds)) else NaN)"

text \<open>The exponent part: absent, or \<^verbatim>\<open>e\<close>/\<^verbatim>\<open>E\<close>, an optional sign and digits.\<close>

fun exponent_part :: "string \<Rightarrow> int option" where
  "exponent_part [] = Some 0"
| "exponent_part (c # t) =
     (if c = CHR ''e'' \<or> c = CHR ''E'' then
        (let (negative, ds) =
               (case t of
                  [] \<Rightarrow> (False, [])
                | d # u \<Rightarrow> if d = CHR ''-'' then (True, u)
                           else if d = CHR ''+'' then (False, u) else (False, t))
         in if ds \<noteq> [] \<and> list_all (is_digit 10) ds
            then Some (if negative then - int (digits_val 10 ds) else int (digits_val 10 ds))
            else None)
      else None)"

definition scale10 :: "real \<Rightarrow> int \<Rightarrow> real" where
  "scale10 m ex = (if 0 \<le> ex then m * 10 ^ nat ex else m / 10 ^ nat (- ex))"

definition unsigned_decimal :: "string \<Rightarrow> jsnum" where
  "unsigned_decimal s =
     (if s = ''Infinity'' then PInf
      else
        let ip = takeWhile (is_digit 10) s;
            r1 = dropWhile (is_digit 10) s;
            (fp, r2) =
               (case r1 of
                  [] \<Rightarrow> ([], [])
                | c # t \<Rightarrow> if c = CHR ''.''
                           then (takeWhile (is_digit 10) t, dropWhile (is_digit 10) t)
                           else ([], r1))
        in if ip = [] \<and> fp = [] then NaN
           else
             (case exponent_part r2 of
                None \<Rightarrow> NaN
              | Some ex \<Rightarrow>
                  Fin (scale10 (real (digits_val 10 ip)
                                 + real (digits_val 10 fp) / 10 ^ length fp) ex)))"

definition negate :: "jsnum \<Rightarrow> jsnum" where
  "negate v = (case v of NaN \<Rightarrow> NaN | PInf \<Rightarrow> NInf | NInf \<Rightarrow> PInf | Fin x \<Rightarrow> Fin (- x))"

definition StringToNumber :: "string \<Rightarrow> jsnum" where
  "StringToNumber str =
     (let s = trim str in
      case s of
        [] \<Rightarrow> Fin 0
      | c # t \<Rightarrow>
          if c = CHR ''-'' then negate (unsigned_decimal t)
          else if c = CHR ''+'' then unsigned_decimal t
          else if c = CHR ''0'' \<and> t \<noteq> [] \<and> hd t \<in> {CHR ''x'', CHR ''X''} then radix_literal 16 (tl t)
          else if c = CHR ''0'' \<and> t \<noteq> [] \<and> hd t \<in> {CHR ''o'', CHR ''O''} then radix_literal 8 (tl t)
          else if c = CHR ''0'' \<and> t \<noteq> [] \<and> hd t \<in> {CHR ''b'', CHR ''B''} then radix_literal 2 (tl t)
          else unsigned_decimal s)"

fun Number_js :: "jsval \<Rightarrow> jsnum" where
  "Number_js JUndefined = NaN"
| "Number_js JNull = Fin 0"
| "Number_js (JBool b) = Fin (if b then 1 else 0)"
| "Number_js (JNum n) = n"
| "Number_js (JStr s) = StringToNumber s"


subsection \<open>The rendered element tree\<close>

text \<open>
  The elements the component renders, in the order of its JSX. Event targets are
  elements of this tree: the container's \<^verbatim>\<open>onClick\<close>, \<^verbatim>\<open>onMouseDown\<close> and
  \<^verbatim>\<open>onTouchStart\<close> see the events that bubble up from them.
\<close>

datatype element =
    CompareRoot
  | VideoBottom
  | VideoTop
  | Divider
  | DividerLine
  | DividerHandle
  | HandleSvg
  | HandlePath1
  | HandlePath2
  | Labels
  | LabelLeft
  | LabelRight
  | Slider
  | PlayIndicator
  | PlaySvg
  | PlayPolygon
  | AudioIndicator
  | AudioSvg
  | AudioPath

fun parentElement :: "element \<Rightarrow> element option" where
  "parentElement CompareRoot = None"
| "parentElement VideoBottom = Some CompareRoot"
| "parentElement VideoTop = Some CompareRoot"
| "parentElement Divider = Some CompareRoot"
| "parentElement DividerLine = Some Divider"
| "parentElement DividerHandle = Some Divider"
| "parentElement HandleSvg = Some DividerHandle"
| "parentElement HandlePath1 = Some HandleSvg"
| "parentElement HandlePath2 = Some HandleSvg"
| "parentElement Labels = Some CompareRoot"
| "parentElement LabelLeft = Some Labels"
| "parentElement LabelRight = Some Labels"
| "parentElement Slider = Some CompareRoot"
| "parentElement PlayIndicator = Some CompareRoot"
| "parentElement PlaySvg = Some PlayIndicator"
| "parentElement PlayPolygon = Some PlaySvg"
| "parentElement AudioIndicator = Some CompareRoot"
| "parentElement AudioSvg = Some AudioIndicator"
| "parentElement AudioPath = Some AudioSvg"

text \<open>
  The \<^verbatim>\<open>className\<close> of each element; the play indicator carries
  \<^verbatim>\<open>hidden\<close> while \<^verbatim>\<open>isPlaying\<close> holds.
\<close>

fun classList :: "bool \<Rightarrow> element \<Rightarrow> string list" where
  "classList playing CompareRoot = [''compare-player'']"
| "classList playing VideoBottom = [''compare-video'', ''compare-video-bottom'']"
| "classList playing VideoTop = [''compare-video'', ''compare-video-top'']"
| "classList playing Divider = [''compare-divider'']"
| "classList playing DividerLine = [''compare-divider-line'']"
| "classList playing DividerHandle = [''compare-divider-handle'']"
| "classList playing Labels = [''compare-labels'']"
| "classList playing LabelLeft = [''compare-label'', ''compare-label-left'']"
| "classList playing LabelRight = [''compare-label'', ''compare-label-right'']"
| "classList playing Slider = [''compare-slider'']"
| "classList playing PlayIndicator =
     (if playing then [''compare-play-indicator'', ''hidden''] else [''compare-play-indicator''])"
| "classList playing AudioIndicator = [''audio-indicator'']"
| "classList playing _ = []"

definition contains :: "string list \<Rightarrow> string \<Rightarrow> bool" where
  "contains cl c = (c \<in> set cl)"

fun depth :: "element \<Rightarrow> nat" where
  "depth e = (case parentElement e of None \<Rightarrow> 0 | Some p \<Rightarrow>
     (case parentElement p of None \<Rightarrow> 1 | Some q \<Rightarrow>
       (case parentElement q of None \<Rightarrow> 2 | Some r \<Rightarrow>
         (case parentElement r of None \<Rightarrow> 3 | Some _ \<Rightarrow> 4))))"

text \<open>
  \<^verbatim>\<open>e.closest('.c')\<close>: the element itself or its nearest ancestor of class
  \<^verbatim>\<open>c\<close>, \<^verbatim>\<open>null\<close> if there is none.
\<close>

function closest :: "bool \<Rightarrow> string \<Rightarrow> element \<Rightarrow> element option" where
  "closest playing c e =
     (if contains (classList playing e) c then Some e
      else (case parentElement e of None \<Rightarrow> None | Some p \<Rightarrow> closest playing c p))"
  by pat_completeness auto
termination
  by (relation "measure (\<lambda>(playing, c, e). depth e)") (auto elim: parentElement.elims)

subsection \<open>State\<close>

datatype command = Play | Pause

text \<open>
  A video element: the fields the component reads or writes, and the
  \<^verbatim>\<open>play()\<close>/\<^verbatim>\<open>pause()\<close> calls it has received, oldest first. A rejected
  \<^verbatim>\<open>play()\<close> promise is caught and discarded by the source, so a call has no
  other effect on the component. An assignment to a field is a record update; the
  element itself accepts a \<open>volume\<close> in [0, 1] only, which is where the volumes
  computed from a divider position in [0, 100] lie.
\<close>

record video =
  currentTime :: jsnum
  volume :: jsnum
  muted :: bool
  issued :: "command list"

text \<open>The fields of \<^verbatim>\<open>getBoundingClientRect()\<close> that the component reads.\<close>

record DOMRect =
  rect_left :: jsnum
  rect_width :: jsnum

text \<open>
  \<open>videoA\<close> is the bottom (background) video, \<open>videoB\<close> the clipped top
  (foreground) one. A ref is \<open>None\<close> while its element is not attached.
\<close>

record player =
  sliderValue :: jsnum
  isPlaying :: bool
  isMuted :: bool
  isDragging :: bool
  videoARef :: "video option"
  videoBRef :: "video option"
  containerRef :: "DOMRect option"

record mouse_event =
  target :: element
  clientX :: jsnum

text \<open>A touch event: its target and the \<^verbatim>\<open>clientX\<close> of each entry of \<^verbatim>\<open>e.touches\<close>.\<close>

record touch_event =
  touch_target :: element
  touches :: "jsnum list"

record change_event =
  target_value :: jsval

datatype js_error = TypeError

definition play :: "video \<Rightarrow> video" where
  "play v = v\<lparr>issued := issued v @ [Play]\<rparr>"

definition pause :: "video \<Rightarrow> video" where
  "pause v = v\<lparr>issued := issued v @ [Pause]\<rparr>"


subsection \<open>Pointer handlers\<close>

text \<open>
  \<^verbatim>\<open>calculatePosition(clientX)\<close>: 50 while the container ref is not attached,
  otherwise the pointer's offset in the bounding box as a percentage, passed through
  \<^verbatim>\<open>Math.max(0, Math.min(100, percentage))\<close>.
\<close>

definition calculatePosition :: "DOMRect option \<Rightarrow> jsnum \<Rightarrow> jsnum" where
  "calculatePosition container cx =
     (case container of
        None \<Rightarrow> Fin 50
      | Some rect \<Rightarrow>
          let x = js_sub cx (rect_left rect);
              percentage = js_mul (js_div x (rect_width rect)) (Fin 100)
          in Math_max (Fin 0) (Math_min (Fin 100) percentage))"

text \<open>
  The touch handlers read \<^verbatim>\<open>e.touches[0].clientX\<close>, which throws a
  \<^verbatim>\<open>TypeError\<close> on an empty touch list. They return the next state together
  with the exception, if any: in \<^verbatim>\<open>handleTouchStart\<close> the call
  \<^verbatim>\<open>setIsDragging(true)\<close> precedes the read, so its update is queued even
  when the read throws.
\<close>

definition handleTouchStart :: "touch_event \<Rightarrow> player \<Rightarrow> player \<times> js_error option" where
  "handleTouchStart e s =
     (let s1 = s\<lparr>isDragging := True\<rparr> in
      case touches e of
        [] \<Rightarrow> (s1, Some TypeError)
      | touch # _ \<Rightarrow>
          (s1\<lparr>sliderValue := calculatePosition (containerRef s) touch\<rparr>, None))"

definition handleTouchMove :: "touch_event \<Rightarrow> player \<Rightarrow> player \<times> js_error option" where
  "handleTouchMove e s =
     (if \<not> isDragging s then (s, None)
      else
        case touches e of
          [] \<Rightarrow> (s, Some TypeError)
        | touch # _ \<Rightarrow>
            (s\<lparr>sliderValue := calculatePosition (containerRef s) touch\<rparr>, None))"

definition handleTouchEnd :: "player \<Rightarrow> player" where
  "handleTouchEnd s = s\<lparr>isDragging := False\<rparr>"

definition handleMouseDown :: "mouse_event \<Rightarrow> player \<Rightarrow> player" where
  "handleMouseDown e s =
     (if closest (isPlaying s) ''compare-divider'' (target e) \<noteq> None
         \<or> contains (classList (isPlaying s) (target e)) ''compare-slider''
      then s\<lparr>isDragging := True,
             sliderValue := calculatePosition (containerRef s) (clientX e)\<rparr>
      else s)"

definition handleMouseMove :: "mouse_event \<Rightarrow> player \<Rightarrow> player" where
  "handleMouseMove e s =
     (if \<not> isDragging s then s
      else s\<lparr>sliderValue := calculatePosition (containerRef s) (clientX e)\<rparr>)"

definition handleMouseUp :: "player \<Rightarrow> player" where
  "handleMouseUp s = s\<lparr>isDragging := False\<rparr>"

subsection \<open>The imperative handle\<close>

text \<open>
  \<^verbatim>\<open>toggleMuted\<close> returns \<^verbatim>\<open>!newMuted\<close> and the next state; on unmute it
  calls \<^verbatim>\<open>play()\<close> on both videos when both refs are attached.
\<close>

definition toggleMuted :: "player \<Rightarrow> bool \<times> player" where
  "toggleMuted s =
     (let newMuted = \<not> isMuted s;
          s1 = (case (videoARef s, videoBRef s) of
                  (Some videoA, Some videoB) \<Rightarrow>
                    if \<not> newMuted
                    then s\<lparr>videoARef := Some (play videoA), videoBRef := Some (play videoB)\<rparr>
                    else s
                | _ \<Rightarrow> s)
      in (\<not> newMuted, s1\<lparr>isMuted := newMuted\<rparr>))"

text \<open>
  The handle is re-created by every render and its \<^verbatim>\<open>toggleMuted\<close> closes over
  that render's \<^verbatim>\<open>isMuted\<close>. \<open>toggleMuted_rendered r s\<close> is the call on the
  handle of the render of \<open>r\<close> when the updates queued since that render have led to
  \<open>s\<close>: \<^verbatim>\<open>isMuted\<close> is read from \<open>r\<close>, the refs are read and the update is
  queued on \<open>s\<close>. On a fresh render \<open>r = s\<close>, and the call is \<open>toggleMuted s\<close>.
\<close>

definition toggleMuted_rendered :: "player \<Rightarrow> player \<Rightarrow> bool \<times> player" where
  "toggleMuted_rendered r s =
     (let newMuted = \<not> isMuted r;
          s1 = (case (videoARef s, videoBRef s) of
                  (Some videoA, Some videoB) \<Rightarrow>
                    if \<not> newMuted
                    then s\<lparr>videoARef := Some (play videoA), videoBRef := Some (play videoB)\<rparr>
                    else s
                | _ \<Rightarrow> s)
      in (\<not> newMuted, s1\<lparr>isMuted := newMuted\<rparr>))"

definition setMuted :: "bool \<Rightarrow> player \<Rightarrow> player" where
  "setMuted m s = s\<lparr>isMuted := m\<rparr>"


definition playVideos :: "player \<Rightarrow> player" where
  "playVideos s =
     (case (videoARef s, videoBRef s) of
        (Some videoA, Some videoB) \<Rightarrow>
          s\<lparr>videoARef := Some (play videoA), videoBRef := Some (play videoB), isPlaying := True\<rparr>
      | _ \<Rightarrow> s)"

subsection \<open>Effects\<close>

text \<open>
  \<^verbatim>\<open>syncVideos\<close>, the \<^verbatim>\<open>timeupdate\<close> listener of video A. The listener is
  registered only when both refs are attached.
\<close>

definition syncVideos :: "player \<Rightarrow> player" where
  "syncVideos s =
     (case (videoARef s, videoBRef s) of
        (Some videoA, Some videoB) \<Rightarrow>
          if js_gt (Math_abs (js_sub (currentTime videoA) (currentTime videoB))) (Fin (1 / 10))
          then s\<lparr>videoBRef := Some (videoB\<lparr>currentTime := currentTime videoA\<rparr>)\<rparr>
          else s
      | _ \<Rightarrow> s)"

text \<open>The effect on \<^verbatim>\<open>[isPlaying]\<close>: play or pause both videos.\<close>

definition effect_play_pause :: "player \<Rightarrow> player" where
  "effect_play_pause s =
     (case (videoARef s, videoBRef s) of
        (Some videoA, Some videoB) \<Rightarrow>
          if isPlaying s
          then s\<lparr>videoARef := Some (play videoA), videoBRef := Some (play videoB)\<rparr>
          else s\<lparr>videoARef := Some (pause videoA), videoBRef := Some (pause videoB)\<rparr>
      | _ \<Rightarrow> s)"

text \<open>The effect on \<^verbatim>\<open>[isMuted]\<close>: copy the gate to both videos.\<close>

definition effect_muted :: "player \<Rightarrow> player" where
  "effect_muted s =
     (case (videoARef s, videoBRef s) of
        (Some videoA, Some videoB) \<Rightarrow>
          s\<lparr>videoARef := Some (videoA\<lparr>muted := isMuted s\<rparr>),
            videoBRef := Some (videoB\<lparr>muted := isMuted s\<rparr>)\<rparr>
      | _ \<Rightarrow> s)"

text \<open>The effect on \<^verbatim>\<open>[sliderValue, isMuted]\<close>: the audio cross-fade.\<close>

definition effect_cross_fade :: "player \<Rightarrow> player" where
  "effect_cross_fade s =
     (case (videoARef s, videoBRef s) of
        (Some videoA, Some videoB) \<Rightarrow>
          if \<not> isMuted s then
            (let safeValue = (if isNaN_js (sliderValue s) then Fin 50 else sliderValue s);
                 realityVolume = js_div safeValue (Fin 100);
                 simulationVolume = js_sub (Fin 1) realityVolume
             in s\<lparr>videoARef := Some (videoA\<lparr>volume := simulationVolume\<rparr>),
                  videoBRef := Some (videoB\<lparr>volume := realityVolume\<rparr>)\<rparr>)
          else s
      | _ \<Rightarrow> s)"

text \<open>
  The commit that follows a state update: each effect runs, in source order, when
  one of its dependencies differs from the previous render.
\<close>

definition commit :: "player \<Rightarrow> player \<Rightarrow> player" where
  "commit prev next =
     (let s1 = (if isPlaying next \<noteq> isPlaying prev then effect_play_pause next else next);
          s2 = (if isMuted next \<noteq> isMuted prev then effect_muted s1 else s1)
      in if sliderValue next \<noteq> sliderValue prev \<or> isMuted next \<noteq> isMuted prev
         then effect_cross_fade s2 else s2)"

text \<open>One discrete event: the handler, then the commit of its updates.\<close>

definition dispatch :: "(player \<Rightarrow> player) \<Rightarrow> player \<Rightarrow> player" where
  "dispatch handler s = commit s (handler s)"

subsection \<open>Render-time values and the remaining handlers\<close>

definition handleSliderChange :: "change_event \<Rightarrow> player \<Rightarrow> player" where
  "handleSliderChange e s = s\<lparr>sliderValue := Number_js (target_value e)\<rparr>"

definition togglePlayback :: "mouse_event \<Rightarrow> player \<Rightarrow> player" where
  "togglePlayback e s =
     (if isDragging s \<or> contains (classList (isPlaying s) (target e)) ''compare-slider''
      then s
      else s\<lparr>isPlaying := \<not> isPlaying s\<rparr>)"

text \<open>
  \<^verbatim>\<open>safeSliderValue\<close>; the state cell holds a number, so the test
  \<^verbatim>\<open>sliderValue === undefined\<close> is false.
\<close>

definition safeSliderValue :: "player \<Rightarrow> jsnum" where
  "safeSliderValue s = (if isNaN_js (sliderValue s) \<or> False then Fin 50 else sliderValue s)"

definition clipPercentage :: "player \<Rightarrow> jsnum" where
  "clipPercentage s = js_sub (Fin 100) (safeSliderValue s)"


subsection \<open>Mounting\<close>

text \<open>
  A video element as first rendered: at time 0, at the default volume 1, with the
  \<^verbatim>\<open>muted\<close> attribute of the JSX, and no call received.
\<close>

definition fresh_video :: "bool \<Rightarrow> video" where
  "fresh_video m = \<lparr>currentTime = Fin 0, volume = Fin 1, muted = m, issued = []\<rparr>"

text \<open>The first render: the \<^verbatim>\<open>useState\<close> defaults, all three refs attached.\<close>

definition initial_render :: "DOMRect \<Rightarrow> player" where
  "initial_render rect =
     \<lparr>sliderValue = Fin 50, isPlaying = False, isMuted = True, isDragging = False,
      videoARef = Some (fresh_video True), videoBRef = Some (fresh_video True),
      containerRef = Some rect\<rparr>"

text \<open>
  The mount-only effect: both volumes to 0.5, then \<^verbatim>\<open>play()\<close> on both and
  \<^verbatim>\<open>setIsPlaying(true)\<close>. (Its retry after 100 ms is a later event.)
\<close>

definition effect_autoplay :: "player \<Rightarrow> player" where
  "effect_autoplay s =
     (case (videoARef s, videoBRef s) of
        (Some videoA, Some videoB) \<Rightarrow>
          s\<lparr>videoARef := Some (play (videoA\<lparr>volume := Fin (1 / 2)\<rparr>)),
            videoBRef := Some (play (videoB\<lparr>volume := Fin (1 / 2)\<rparr>)),
            isPlaying := True\<rparr>
      | _ \<Rightarrow> s)"

text \<open>
  Mounting runs every effect once, in source order, and commits the update the
  last one queued.
\<close>

definition mount :: "DOMRect \<Rightarrow> player" where
  "mount rect =
     (let s0 = initial_render rect
      in commit s0 (effect_autoplay (effect_cross_fade (effect_muted (effect_play_pause s0)))))"

text \<open>
  The audio gate is in step with the elements when both attached videos carry the
  component's \<open>isMuted\<close> in their \<open>muted\<close> field, as the effect on
  \<^verbatim>\<open>[isMuted]\<close> leaves them.
\<close>

definition gate_synced :: "player \<Rightarrow> bool" where
  "gate_synced s =
     (case (videoARef s, videoBRef s) of
        (Some videoA, Some videoB) \<Rightarrow> muted videoA = isMuted s \<and> muted videoB = isMuted s
      | _ \<Rightarrow> True)"

text \<open>
  The divider position the specification asks the setter to store:
  \<open>clamp(0, 100, numeric(value) or 50)\<close>. This definition follows the
  specification's words; \<open>handleSliderChange\<close> above follows the source.
\<close>

definition spec_setDividerPosition :: "jsval \<Rightarrow> jsnum" where
  "spec_setDividerPosition v =
     (let n = Number_js v
      in Math_max (Fin 0) (Math_min (Fin 100) (if isNaN_js n then Fin 50 else n)))"


text \<open>A container 200 pixels wide at the left edge of the viewport, for the examples.\<close>

definition example_rect :: DOMRect where
  "example_rect = \<lparr>rect_left = Fin 0, rect_width = Fin 200\<rparr>"

text \<open>The mounted player after the host's first \<^verbatim>\<open>toggleMuted()\<close>: audio on.\<close>

definition example_unmuted :: player where
  "example_unmuted = dispatch (\<lambda>s. snd (toggleMuted s)) (mount example_rect)"

text \<open>The mounted player with video A at time \<open>ta\<close> and video B at time \<open>tb\<close>.\<close>

definition example_at :: "real \<Rightarrow> real \<Rightarrow> player" where
  "example_at ta tb =
     (mount example_rect)
       \<lparr>videoARef := Some ((fresh_video True)\<lparr>currentTime := Fin ta\<rparr>),
        videoBRef := Some ((fresh_video True)\<lparr>currentTime := Fin tb\<rparr>)\<rparr>"

section \<open>Properties\<close>

subsection \<open>Frame lemmas\<close>

lemmas number_defs = StringToNumber_def trim_def is_space_def unsigned_decimal_def
  is_digit_def digit_val_def digits_val_def scale10_def radix_literal_def negate_def

lemma commit_same: "commit s s = s"
  by (simp add: commit_def)

lemma effect_play_pause_state:
  "sliderValue (effect_play_pause s) = sliderValue s"
  "isPlaying (effect_play_pause s) = isPlaying s"
  "isMuted (effect_play_pause s) = isMuted s"
  "isDragging (effect_play_pause s) = isDragging s"
  "containerRef (effect_play_pause s) = containerRef s"
  by (simp_all add: effect_play_pause_def split: option.splits)

lemma effect_muted_state:
  "sliderValue (effect_muted s) = sliderValue s"
  "isPlaying (effect_muted s) = isPlaying s"
  "isMuted (effect_muted s) = isMuted s"
  "isDragging (effect_muted s) = isDragging s"
  "containerRef (effect_muted s) = containerRef s"
  by (simp_all add: effect_muted_def split: option.splits)

lemma effect_cross_fade_state:
  "sliderValue (effect_cross_fade s) = sliderValue s"
  "isPlaying (effect_cross_fade s) = isPlaying s"
  "isMuted (effect_cross_fade s) = isMuted s"
  "isDragging (effect_cross_fade s) = isDragging s"
  "containerRef (effect_cross_fade s) = containerRef s"
  by (simp_all add: effect_cross_fade_def Let_def split: option.splits)

text \<open>No effect writes a state cell or the container: a commit only touches the videos.\<close>

lemma commit_state:
  "sliderValue (commit prev next) = sliderValue next"
  "isPlaying (commit prev next) = isPlaying next"
  "isMuted (commit prev next) = isMuted next"
  "isDragging (commit prev next) = isDragging next"
  "containerRef (commit prev next) = containerRef next"
  by (simp_all add: commit_def Let_def effect_play_pause_state effect_muted_state
      effect_cross_fade_state)

lemma effect_cross_fade_muted: "isMuted s \<Longrightarrow> effect_cross_fade s = s"
  by (simp add: effect_cross_fade_def split: option.splits)

lemma commit_muted_slider:
  "isMuted prev \<Longrightarrow> isMuted next \<Longrightarrow> isPlaying next = isPlaying prev \<Longrightarrow>
     commit prev next = next"
  by (simp add: commit_def effect_cross_fade_muted)

text \<open>
  A container of width 0: the pointer left or right of it gives 0 or 100, the
  pointer exactly at its left edge gives NaN (zero over zero).
\<close>

lemma calculatePosition_zero_width:
  "calculatePosition (Some \<lparr>rect_left = Fin l, rect_width = Fin 0\<rparr>) (Fin x)
     = (if x = l then NaN else if x < l then Fin 0 else Fin 100)"
  by (simp add: calculatePosition_def Let_def signed_inf_def)

text \<open>The mounted player: playing, muted, divider at 50, both volumes at 0.5.\<close>

lemma mount_value:
  "mount rect =
     \<lparr>sliderValue = Fin 50, isPlaying = True, isMuted = True, isDragging = False,
      videoARef = Some \<lparr>currentTime = Fin 0, volume = Fin (1 / 2), muted = True,
                         issued = [Pause, Play, Play]\<rparr>,
      videoBRef = Some \<lparr>currentTime = Fin 0, volume = Fin (1 / 2), muted = True,
                         issued = [Pause, Play, Play]\<rparr>,
      containerRef = Some rect\<rparr>"
  by (simp add: mount_def initial_render_def effect_autoplay_def fresh_video_def play_def
      pause_def commit_def effect_cross_fade_def effect_muted_def effect_play_pause_def)

lemma mount_gate_synced: "gate_synced (mount rect)"
  by (simp add: mount_value gate_synced_def)

text \<open>
  The gate stays in step: the effect on \<^verbatim>\<open>[isMuted]\<close> establishes it, the
  cross-fade keeps it, and so every change of the gate through the handle ends in
  step again.
\<close>

lemma gate_synced_effect_muted: "gate_synced (effect_muted s)"
  by (simp add: gate_synced_def effect_muted_def split: option.splits)

lemma gate_synced_effect_cross_fade: "gate_synced (effect_cross_fade s) = gate_synced s"
  by (simp add: gate_synced_def effect_cross_fade_def Let_def split: option.splits)

lemma gate_synced_setMuted: "gate_synced s \<Longrightarrow> gate_synced (dispatch (setMuted m) s)"
proof (cases "m = isMuted s")
  case True
  assume "gate_synced s"
  with True show ?thesis
    by (simp add: dispatch_def setMuted_def commit_same)
next
  case False
  then show ?thesis
    by (simp add: dispatch_def setMuted_def commit_def gate_synced_effect_cross_fade
        gate_synced_effect_muted)
qed

lemma toggleMuted_result:
  "fst (toggleMuted s) = isMuted s"
  "isMuted (snd (toggleMuted s)) = (\<not> isMuted s)"
  by (simp_all add: toggleMuted_def Let_def)

lemma gate_synced_toggleMuted: "gate_synced (dispatch (\<lambda>s. snd (toggleMuted s)) s)"
  by (simp add: dispatch_def commit_def toggleMuted_result gate_synced_effect_cross_fade
      gate_synced_effect_muted Let_def)

lemma toggleMuted_rendered_fresh: "toggleMuted_rendered s s = toggleMuted s"
  by (simp add: toggleMuted_rendered_def toggleMuted_def)

lemma toggleMuted_rendered_result:
  "fst (toggleMuted_rendered r s) = isMuted r"
  "isMuted (snd (toggleMuted_rendered r s)) = (\<not> isMuted r)"
  by (simp_all add: toggleMuted_rendered_def Let_def)


lemma handleMouseDown_isPlaying: "isPlaying (handleMouseDown e s) = isPlaying s"
  by (simp add: handleMouseDown_def)

lemma handleMouseMove_flags:
  "isPlaying (handleMouseMove e s) = isPlaying s"
  "isDragging (handleMouseMove e s) = isDragging s"
  by (simp_all add: handleMouseMove_def)

lemma handleMouseUp_flags:
  "isPlaying (handleMouseUp s) = isPlaying s"
  "isDragging (handleMouseUp s) = False"
  by (simp_all add: handleMouseUp_def)

lemma handleTouchEnd_flags:
  "isPlaying (handleTouchEnd s) = isPlaying s"
  "isDragging (handleTouchEnd s) = False"
  by (simp_all add: handleTouchEnd_def)

text \<open>What the guard of \<open>togglePlayback\<close> does, by the value of \<open>isDragging\<close>.\<close>

lemma togglePlayback_while_dragging: "isDragging s \<Longrightarrow> togglePlayback e s = s"
  by (simp add: togglePlayback_def)

lemma togglePlayback_no_drag:
  "\<not> isDragging s \<Longrightarrow> \<not> contains (classList (isPlaying s) (target e)) ''compare-slider'' \<Longrightarrow>
     togglePlayback e s = s\<lparr>isPlaying := \<not> isPlaying s\<rparr>"
  by (simp add: togglePlayback_def)

text \<open>
  Whatever came before, once the mouse button or the touch is released the next
  container click off the slider toggles playback.
\<close>

lemma click_after_release_toggles:
  assumes "\<not> contains (classList (isPlaying s) (target e)) ''compare-slider''"
  shows "isPlaying (dispatch (togglePlayback e) (dispatch handleMouseUp s)) = (\<not> isPlaying s)"
    and "isPlaying (dispatch (togglePlayback e) (dispatch handleTouchEnd s)) = (\<not> isPlaying s)"
  using assms
  by (simp_all add: dispatch_def commit_state togglePlayback_def handleMouseUp_flags
      handleTouchEnd_flags)

text \<open>
  A mouse-down starts a drag exactly on the divider (or an element inside it) and
  on the slider input.
\<close>

lemma handleMouseDown_starts_drag_iff:
  assumes "\<not> isDragging s"
  shows "isDragging (handleMouseDown e s)
           \<longleftrightarrow> closest (isPlaying s) ''compare-divider'' (target e) \<noteq> None
               \<or> contains (classList (isPlaying s) (target e)) ''compare-slider''"
  using assms by (simp add: handleMouseDown_def)


lemma example_unmuted_value:
  "example_unmuted =
     \<lparr>sliderValue = Fin 50, isPlaying = True, isMuted = False, isDragging = False,
      videoARef = Some \<lparr>currentTime = Fin 0, volume = Fin (1 / 2), muted = False,
                         issued = [Pause, Play, Play, Play]\<rparr>,
      videoBRef = Some \<lparr>currentTime = Fin 0, volume = Fin (1 / 2), muted = False,
                         issued = [Pause, Play, Play, Play]\<rparr>,
      containerRef = Some example_rect\<rparr>"
  by (simp add: example_unmuted_def dispatch_def mount_value toggleMuted_def play_def
      commit_def effect_muted_def effect_cross_fade_def Let_def)

subsection \<open>The divider position\<close>

text \<open>
  C1, as the specification states it, fails: \<open>handleSliderChange\<close> stores
  \<open>Number(value)\<close> as it is. The string \<open>150\<close> is stored as 150 where the
  specification's setter gives 100, and \<open>undefined\<close> is stored as NaN where the
  specification's setter gives 50.
\<close>

theorem handleSliderChange_not_clamped:
  "sliderValue (handleSliderChange \<lparr>target_value = JStr ''150''\<rparr> (mount example_rect)) = Fin 150
   \<and> spec_setDividerPosition (JStr ''150'') = Fin 100
   \<and> sliderValue (handleSliderChange \<lparr>target_value = JUndefined\<rparr> (mount example_rect)) = NaN
   \<and> spec_setDividerPosition JUndefined = Fin 50"
  by (simp add: handleSliderChange_def spec_setDividerPosition_def number_defs)

text \<open>
  C1, amended: for every value passed to \<open>handleSliderChange\<close>, the position stored
  in component state is \<open>Number(value)\<close>, neither clamped nor replaced when it is
  NaN. The fallback to 50 is applied to the render-time \<open>safeSliderValue\<close>, which is
  50 when the stored position is NaN and the stored position otherwise, and so is
  never NaN. When \<open>Number(value)\<close> is a number in [0, 100], the stored position is the
  one the specification's setter gives.
\<close>

theorem handleSliderChange_stores_Number:
  "sliderValue (handleSliderChange e s) = Number_js (target_value e)
   \<and> safeSliderValue (handleSliderChange e s)
       = (if isNaN_js (Number_js (target_value e)) then Fin 50 else Number_js (target_value e))
   \<and> \<not> isNaN_js (safeSliderValue (handleSliderChange e s))
   \<and> (Number_js (target_value e) = Fin x \<and> 0 \<le> x \<and> x \<le> 100 \<longrightarrow>
         sliderValue (handleSliderChange e s) = spec_setDividerPosition (target_value e))"
  by (auto simp add: handleSliderChange_def safeSliderValue_def spec_setDividerPosition_def)

theorem handleSliderChange_stores_Number_witness:
  "Number_js (JStr ''80'') = Fin 80 \<and> (0::real) \<le> 80 \<and> (80::real) \<le> 100
   \<and> sliderValue (handleSliderChange \<lparr>target_value = JStr ''80''\<rparr> (mount example_rect))
       = spec_setDividerPosition (JStr ''80'')
   \<and> safeSliderValue (handleSliderChange \<lparr>target_value = JStr ''80''\<rparr> (mount example_rect))
       = Fin 80"
  using handleSliderChange_stores_Number
          [where e = "\<lparr>target_value = JStr ''80''\<rparr>" and s = "mount example_rect" and x = 80]
  by (simp add: number_defs handleSliderChange_def safeSliderValue_def spec_setDividerPosition_def)

text \<open>
  C8: \<open>calculatePosition\<close> returns 50 when the container ref is not attached. With
  the container attached it returns \<open>Math.max(0, Math.min(100, percentage))\<close> for the
  percentage \<open>(clientX - left) / width * 100\<close>; for finite coordinates and a nonzero
  width that is the real number \<open>(x - l) / w * 100\<close> clamped to [0, 100].
\<close>

theorem calculatePosition_clamped_percentage:
  "calculatePosition None cx = Fin 50
   \<and> calculatePosition (Some rect) cx
       = Math_max (Fin 0)
           (Math_min (Fin 100) (js_mul (js_div (js_sub cx (rect_left rect)) (rect_width rect)) (Fin 100)))
   \<and> (w \<noteq> 0 \<longrightarrow>
         calculatePosition (Some \<lparr>rect_left = Fin l, rect_width = Fin w\<rparr>) (Fin x)
           = Fin (max 0 (min 100 ((x - l) / w * 100))))"
  by (auto simp add: calculatePosition_def Let_def)

theorem calculatePosition_clamped_percentage_witness:
  "(200::real) \<noteq> 0
   \<and> calculatePosition (Some example_rect) (Fin 150) = Fin 75
   \<and> calculatePosition (Some example_rect) (Fin 300) = Fin 100
   \<and> calculatePosition (Some example_rect) (Fin (- 20)) = Fin 0
   \<and> calculatePosition None (Fin 150) = Fin 50"
  using calculatePosition_clamped_percentage [where w = 200 and l = 0 and x = 150 and cx = "Fin 150"]
        calculatePosition_clamped_percentage [where w = 200 and l = 0 and x = 300]
        calculatePosition_clamped_percentage [where w = 200 and l = 0 and x = "- 20"]
  by (simp add: example_rect_def)


subsection \<open>Dragging\<close>

text \<open>
  C7: a \<open>continueDrag\<close> event (mouse-move or touch-move) delivered while
  \<open>isDragging\<close> is false leaves the whole player state unchanged, the divider
  position included, and so does the commit that follows it.
\<close>

theorem continueDrag_ignored_without_drag:
  assumes "\<not> isDragging s"
  shows "handleMouseMove e s = s
         \<and> handleTouchMove t s = (s, None)
         \<and> dispatch (handleMouseMove e) s = s
         \<and> dispatch (\<lambda>s. fst (handleTouchMove t s)) s = s"
  using assms by (simp add: handleMouseMove_def handleTouchMove_def dispatch_def commit_same)

theorem continueDrag_ignored_without_drag_witness:
  "\<not> isDragging (mount example_rect)
   \<and> dispatch (handleMouseMove \<lparr>target = VideoTop, clientX = Fin 150\<rparr>) (mount example_rect)
       = mount example_rect
   \<and> sliderValue (fst (handleTouchMove \<lparr>touch_target = VideoTop, touches = [Fin 150]\<rparr>
                          (mount example_rect))) = Fin 50"
  using continueDrag_ignored_without_drag
          [where s = "mount example_rect"
             and e = "\<lparr>target = VideoTop, clientX = Fin 150\<rparr>"
             and t = "\<lparr>touch_target = VideoTop, touches = [Fin 150]\<rparr>"]
  by (simp add: mount_value)

text \<open>
  C9 fails on the touch path. \<open>handleMouseDown\<close> starts a drag only on the divider
  or the slider input (\<open>handleMouseDown_starts_drag_iff\<close>), but
  \<open>handleTouchStart\<close> starts one wherever the touch lands: a touch on the bottom
  video, which is neither inside the divider nor the slider, sets \<open>isDragging\<close> and
  moves the divider to the touch (150 of 200 pixels, 75), where the same mouse-down
  does nothing.
\<close>

theorem touch_start_drags_from_any_target:
  "closest True ''compare-divider'' VideoBottom = None
   \<and> \<not> contains (classList True VideoBottom) ''compare-slider''
   \<and> isDragging (fst (handleTouchStart \<lparr>touch_target = VideoBottom, touches = [Fin 150]\<rparr>
                        (mount example_rect)))
   \<and> sliderValue (fst (handleTouchStart \<lparr>touch_target = VideoBottom, touches = [Fin 150]\<rparr>
                         (mount example_rect))) = Fin 75
   \<and> handleMouseDown \<lparr>target = VideoBottom, clientX = Fin 150\<rparr> (mount example_rect)
       = mount example_rect"
  by (simp add: mount_value handleTouchStart_def handleMouseDown_def contains_def
      calculatePosition_def example_rect_def)

text \<open>
  C4 fails on its first half. \<open>togglePlayback\<close> tests \<open>isDragging\<close> when the
  click is handled, and \<open>endDrag\<close> has cleared it by then: after a mouse-down on the
  divider, one mouse-move and the mouse-up, a click on the divider flips
  \<open>isPlaying\<close> of the mounted player from true to false.
\<close>

theorem click_after_drag_toggles_playback:
  "isPlaying (mount example_rect)
   \<and> isDragging (dispatch (handleMouseMove \<lparr>target = VideoTop, clientX = Fin 150\<rparr>)
                   (dispatch (handleMouseDown \<lparr>target = Divider, clientX = Fin 100\<rparr>)
                      (mount example_rect)))
   \<and> \<not> isPlaying
         (dispatch (togglePlayback \<lparr>target = Divider, clientX = Fin 150\<rparr>)
            (dispatch handleMouseUp
               (dispatch (handleMouseMove \<lparr>target = VideoTop, clientX = Fin 150\<rparr>)
                  (dispatch (handleMouseDown \<lparr>target = Divider, clientX = Fin 100\<rparr>)
                     (mount example_rect)))))"
  by (simp add: dispatch_def commit_state handleMouseUp_flags handleMouseMove_flags
      handleMouseDown_isPlaying togglePlayback_def contains_def handleMouseDown_def mount_value)


theorem click_after_drag_toggles_playback_witness:
  "\<not> isPlaying
       (dispatch (togglePlayback \<lparr>target = Divider, clientX = Fin 150\<rparr>)
          (dispatch handleMouseUp
             (dispatch (handleMouseMove \<lparr>target = VideoTop, clientX = Fin 150\<rparr>)
                (dispatch (handleMouseDown \<lparr>target = Divider, clientX = Fin 100\<rparr>)
                   (mount example_rect)))))"
  using click_after_drag_toggles_playback by simp

theorem touch_start_drags_from_any_target_witness:
  "isDragging (fst (handleTouchStart \<lparr>touch_target = VideoBottom, touches = [Fin 150]\<rparr>
                      (mount example_rect)))
   \<and> \<not> isDragging (handleMouseDown \<lparr>target = VideoBottom, clientX = Fin 150\<rparr>
                        (mount example_rect))"
  using touch_start_drags_from_any_target by (simp add: mount_value)

subsection \<open>Audio\<close>

text \<open>
  C2: with \<open>isMuted\<close> false and both videos attached, the cross-fade effect at a
  divider position \<open>p\<close> in [0, 100] writes \<open>p / 100\<close> to the foreground video B and
  \<open>1 - p / 100\<close> to the background video A; the two volumes lie in [0, 1] and sum
  to 1. A NaN position is treated as 50.
\<close>

theorem cross_fade_volumes:
  assumes "\<not> isMuted s" and "videoARef s = Some a" and "videoBRef s = Some b"
  shows "(0 \<le> p \<and> p \<le> 100 \<and> sliderValue s = Fin p \<longrightarrow>
            videoBRef (effect_cross_fade s) = Some (b\<lparr>volume := Fin (p / 100)\<rparr>)
          \<and> videoARef (effect_cross_fade s) = Some (a\<lparr>volume := Fin (1 - p / 100)\<rparr>)
          \<and> js_add (Fin (p / 100)) (Fin (1 - p / 100)) = Fin 1
          \<and> 0 \<le> p / 100 \<and> p / 100 \<le> 1 \<and> 0 \<le> 1 - p / 100 \<and> 1 - p / 100 \<le> 1)
         \<and> (sliderValue s = NaN \<longrightarrow>
              videoBRef (effect_cross_fade s) = Some (b\<lparr>volume := Fin (50 / 100)\<rparr>)
            \<and> videoARef (effect_cross_fade s) = Some (a\<lparr>volume := Fin (1 - 50 / 100)\<rparr>))"
  using assms by (auto simp add: effect_cross_fade_def Let_def)

theorem cross_fade_volumes_witness:
  "\<not> isMuted (handleSliderChange \<lparr>target_value = JStr ''80''\<rparr> example_unmuted)
   \<and> sliderValue (handleSliderChange \<lparr>target_value = JStr ''80''\<rparr> example_unmuted) = Fin 80
   \<and> videoBRef (effect_cross_fade (handleSliderChange \<lparr>target_value = JStr ''80''\<rparr> example_unmuted))
       = Some \<lparr>currentTime = Fin 0, volume = Fin (4 / 5), muted = False,
               issued = [Pause, Play, Play, Play]\<rparr>
   \<and> videoARef (effect_cross_fade (handleSliderChange \<lparr>target_value = JStr ''80''\<rparr> example_unmuted))
       = Some \<lparr>currentTime = Fin 0, volume = Fin (1 / 5), muted = False,
               issued = [Pause, Play, Play, Play]\<rparr>"
  using cross_fade_volumes
          [where s = "handleSliderChange \<lparr>target_value = JStr ''80''\<rparr> example_unmuted"
             and p = 80
             and a = "\<lparr>currentTime = Fin 0, volume = Fin (1 / 2), muted = False,
                       issued = [Pause, Play, Play, Play]\<rparr>"
             and b = "\<lparr>currentTime = Fin 0, volume = Fin (1 / 2), muted = False,
                       issued = [Pause, Play, Play, Play]\<rparr>"]
  by (simp add: example_unmuted_value handleSliderChange_def number_defs)

text \<open>
  C5: while \<open>isMuted\<close> is true, a change of the divider position by any of its
  handlers, followed by its commit, leaves both video elements as they were: no
  volume is written. Both elements carry \<open>muted = true\<close>, the gate the effect on
  \<^verbatim>\<open>[isMuted]\<close> copied to them, so neither is audible whatever the position.
\<close>

theorem muted_divider_change_keeps_volumes:
  assumes "isMuted s" and "gate_synced s" and "videoARef s = Some a" and "videoBRef s = Some b"
  shows "(\<forall>s' \<in> {dispatch (handleSliderChange e) s,
                  dispatch (handleMouseDown m) s,
                  dispatch (handleMouseMove m) s,
                  dispatch (\<lambda>s. fst (handleTouchStart t s)) s,
                  dispatch (\<lambda>s. fst (handleTouchMove t s)) s}.
            videoARef s' = Some a \<and> videoBRef s' = Some b)
         \<and> muted a \<and> muted b"
proof -
  have 1: "videoARef (dispatch (handleSliderChange e) s) = Some a
           \<and> videoBRef (dispatch (handleSliderChange e) s) = Some b"
    using assms by (simp add: dispatch_def commit_muted_slider handleSliderChange_def)
  have 2: "videoARef (dispatch (handleMouseDown m) s) = Some a
           \<and> videoBRef (dispatch (handleMouseDown m) s) = Some b"
    using assms by (simp add: dispatch_def commit_muted_slider handleMouseDown_def)
  have 3: "videoARef (dispatch (handleMouseMove m) s) = Some a
           \<and> videoBRef (dispatch (handleMouseMove m) s) = Some b"
    using assms by (simp add: dispatch_def commit_muted_slider handleMouseMove_def)
  have 4: "videoARef (dispatch (\<lambda>s. fst (handleTouchStart t s)) s) = Some a
           \<and> videoBRef (dispatch (\<lambda>s. fst (handleTouchStart t s)) s) = Some b"
    using assms
    by (simp add: dispatch_def commit_muted_slider handleTouchStart_def Let_def split: list.splits)
  have 5: "videoARef (dispatch (\<lambda>s. fst (handleTouchMove t s)) s) = Some a
           \<and> videoBRef (dispatch (\<lambda>s. fst (handleTouchMove t s)) s) = Some b"
    using assms
    by (simp add: dispatch_def commit_muted_slider handleTouchMove_def split: list.splits)
  have 6: "muted a \<and> muted b"
    using assms by (simp add: gate_synced_def)
  from 1 2 3 4 5 6 show ?thesis by blast
qed

theorem muted_divider_change_keeps_volumes_witness:
  "isMuted (mount example_rect) \<and> gate_synced (mount example_rect)
   \<and> sliderValue (dispatch (handleSliderChange \<lparr>target_value = JStr ''80''\<rparr>) (mount example_rect))
       = Fin 80
   \<and> videoARef (dispatch (handleSliderChange \<lparr>target_value = JStr ''80''\<rparr>) (mount example_rect))
       = Some \<lparr>currentTime = Fin 0, volume = Fin (1 / 2), muted = True,
               issued = [Pause, Play, Play]\<rparr>
   \<and> videoBRef (dispatch (handleSliderChange \<lparr>target_value = JStr ''80''\<rparr>) (mount example_rect))
       = Some \<lparr>currentTime = Fin 0, volume = Fin (1 / 2), muted = True,
               issued = [Pause, Play, Play]\<rparr>"
  using muted_divider_change_keeps_volumes
          [where s = "mount example_rect"
             and e = "\<lparr>target_value = JStr ''80''\<rparr>"
             and a = "\<lparr>currentTime = Fin 0, volume = Fin (1 / 2), muted = True,
                       issued = [Pause, Play, Play]\<rparr>"
             and b = "\<lparr>currentTime = Fin 0, volume = Fin (1 / 2), muted = True,
                       issued = [Pause, Play, Play]\<rparr>"]
        mount_gate_synced [of example_rect]
  by (simp add: mount_value dispatch_def commit_state handleSliderChange_def number_defs)




text \<open>
  C10, as stated, fails: two \<open>toggleMuted\<close> calls on the handle of one render,
  with no re-render between them, both read that render's \<open>isMuted\<close>. On the
  mounted (muted) player both return true, \<open>isMuted\<close> ends false instead of
  restored, also after the commit, and \<^verbatim>\<open>play()\<close> has been called twice on each
  video.
\<close>

theorem toggleMuted_twice_same_render_flips:
  "isMuted (mount example_rect)
   \<and> fst (toggleMuted_rendered (mount example_rect) (mount example_rect))
   \<and> fst (toggleMuted_rendered (mount example_rect)
            (snd (toggleMuted_rendered (mount example_rect) (mount example_rect))))
   \<and> \<not> isMuted (snd (toggleMuted_rendered (mount example_rect)
                     (snd (toggleMuted_rendered (mount example_rect) (mount example_rect)))))
   \<and> \<not> isMuted (commit (mount example_rect)
                     (snd (toggleMuted_rendered (mount example_rect)
                        (snd (toggleMuted_rendered (mount example_rect) (mount example_rect))))))
   \<and> videoARef (snd (toggleMuted_rendered (mount example_rect)
                     (snd (toggleMuted_rendered (mount example_rect) (mount example_rect)))))
       = Some \<lparr>currentTime = Fin 0, volume = Fin (1 / 2), muted = True,
               issued = [Pause, Play, Play, Play, Play]\<rparr>"
  by (simp add: toggleMuted_rendered_result commit_state)
     (simp add: mount_value toggleMuted_rendered_def play_def)

text \<open>
  C10, amended: \<open>toggleMuted\<close> is an involution on the muted state when the
  component re-renders between the two calls. For every starting state, when the
  second call is made on the handle of the render that committed the first, the
  second commit restores the original \<open>isMuted\<close> and the second call returns the
  negation of what the first returned. Two calls on the handle of one render \<open>r\<close>
  both return that render's \<open>isMuted\<close> and leave \<open>isMuted\<close> flipped once.
\<close>

theorem toggleMuted_twice_with_render:
  "isMuted
     (commit (commit s (snd (toggleMuted_rendered s s)))
        (snd (toggleMuted_rendered (commit s (snd (toggleMuted_rendered s s)))
                (commit s (snd (toggleMuted_rendered s s))))))
     = isMuted s
   \<and> fst (toggleMuted_rendered (commit s (snd (toggleMuted_rendered s s)))
            (commit s (snd (toggleMuted_rendered s s))))
       = (\<not> fst (toggleMuted_rendered s s))
   \<and> fst (toggleMuted_rendered r (snd (toggleMuted_rendered r r)))
       = fst (toggleMuted_rendered r r)
   \<and> isMuted (snd (toggleMuted_rendered r (snd (toggleMuted_rendered r r)))) = (\<not> isMuted r)"
  by (simp add: toggleMuted_rendered_result commit_state)

theorem toggleMuted_twice_with_render_witness:
  "isMuted (mount example_rect)
   \<and> isMuted
       (commit (commit (mount example_rect)
                  (snd (toggleMuted_rendered (mount example_rect) (mount example_rect))))
          (snd (toggleMuted_rendered
                  (commit (mount example_rect)
                     (snd (toggleMuted_rendered (mount example_rect) (mount example_rect))))
                  (commit (mount example_rect)
                     (snd (toggleMuted_rendered (mount example_rect) (mount example_rect)))))))
   \<and> fst (toggleMuted_rendered (mount example_rect) (mount example_rect))
   \<and> \<not> fst (toggleMuted_rendered
               (commit (mount example_rect)
                  (snd (toggleMuted_rendered (mount example_rect) (mount example_rect))))
               (commit (mount example_rect)
                  (snd (toggleMuted_rendered (mount example_rect) (mount example_rect)))))"
  using toggleMuted_twice_with_render [where s = "mount example_rect" and r = "mount example_rect"]
  by (simp add: mount_value toggleMuted_rendered_result)

subsection \<open>Synchronisation\<close>

text \<open>
  C3: with video A (background) at time \<open>ta\<close> and video B (foreground) at time
  \<open>tb\<close>, one run of \<open>syncVideos\<close> sets B's \<open>currentTime\<close> to \<open>ta\<close> when
  \<open>|ta - tb| > 0.1\<close> and changes nothing otherwise; video A is never written.
\<close>

theorem syncVideos_corrects_foreground:
  assumes "videoARef s = Some a" and "videoBRef s = Some b"
    and "currentTime a = Fin ta" and "currentTime b = Fin tb"
  shows "syncVideos s =
           (if 1 / 10 < \<bar>ta - tb\<bar> then s\<lparr>videoBRef := Some (b\<lparr>currentTime := Fin ta\<rparr>)\<rparr> else s)
         \<and> videoARef (syncVideos s) = Some a"
  using assms by (simp add: syncVideos_def)

theorem syncVideos_corrects_foreground_witness:
  "videoBRef (syncVideos (example_at 10 (51 / 5))) = Some ((fresh_video True)\<lparr>currentTime := Fin 10\<rparr>)
   \<and> videoARef (syncVideos (example_at 10 (51 / 5))) = Some ((fresh_video True)\<lparr>currentTime := Fin 10\<rparr>)
   \<and> syncVideos (example_at 10 (201 / 20)) = example_at 10 (201 / 20)"
  using syncVideos_corrects_foreground
          [where s = "example_at 10 (51 / 5)" and ta = 10 and tb = "51 / 5"
             and a = "(fresh_video True)\<lparr>currentTime := Fin 10\<rparr>"
             and b = "(fresh_video True)\<lparr>currentTime := Fin (51 / 5)\<rparr>"]
        syncVideos_corrects_foreground
          [where s = "example_at 10 (201 / 20)" and ta = 10 and tb = "201 / 20"
             and a = "(fresh_video True)\<lparr>currentTime := Fin 10\<rparr>"
             and b = "(fresh_video True)\<lparr>currentTime := Fin (201 / 20)\<rparr>"]
  by (simp add: example_at_def)

end
